theory Spec2Isabelle
  imports Complex_Main "HOL-Library.Sublist"
begin

section \<open>Values, exceptions and collaborators\<close>

text \<open>
  The repository holds three programs that share one contract:
  \<^item> \<^verbatim>\<open>src/lambda/lambda_handler.py\<close>: the event handler with failure isolation
    (\<open>handler\<close> below);
  \<^item> \<^verbatim>\<open>src/lambda_handler.py\<close>: the event handler at the root of \<^verbatim>\<open>src\<close>, without
    failure isolation (\<open>handler_root\<close> below);
  \<^item> \<^verbatim>\<open>src/analyze_image.py\<close>: the batch driver (\<open>main\<close> below).

  Python strings are modelled as \<open>string\<close>, the bytes of their UTF-8 encoding. A value that
  comes out of JSON decoding (the notification payload) is a \<open>json\<close>; a dictionary is an
  association list read with \<open>map_of\<close>, each key bound once.
\<close>

datatype json =
    JNull
  | JBool bool
  | JInt int
  | JFloat rat
  | JStr string
  | JList "json list"
  | JDict "(string \<times> json) list"

text \<open>
  The exceptions of the source. \<open>ClientError\<close> is botocore's service error, the only class
  the two \<^verbatim>\<open>except ClientError\<close> clauses catch; \<open>OtherError\<close> stands for every other
  exception a collaborator can raise (botocore's \<^verbatim>\<open>BotoCoreError\<close> family, for instance,
  which is not a subclass of \<^verbatim>\<open>ClientError\<close>).
\<close>

datatype exn =
    KeyError
  | IndexError
  | TypeError
  | AttributeError
  | ClientError string
  | OtherError string

fun is_ClientError :: "exn \<Rightarrow> bool" where
  "is_ClientError (ClientError m) = True"
| "is_ClientError e = False"

text \<open>
  An entry of a dictionary the labeling service returns: the key is absent, or bound to
  \<^verbatim>\<open>None\<close>, or bound to a value. \<^verbatim>\<open>d.get(k)\<close> does not tell the first two apart,
  \<^verbatim>\<open>d[k]\<close> does. The values are typed as the service's contract types them: a label's
  \<^verbatim>\<open>Name\<close> is a string and its \<^verbatim>\<open>Confidence\<close> a float. A float is modelled by its exact
  value, a rational.
\<close>

datatype 'a field = Missing | Null | Val 'a

record rek_label =
  Name :: "string field"
  Confidence :: "rat field"

record response =
  Labels :: "rek_label list field"

text \<open>
  What is stored: a label record \<^verbatim>\<open>{"Name": ..., "Confidence": Decimal(...)}\<close>, where the
  name is \<open>None\<close> when it is Python's \<^verbatim>\<open>None\<close> and the confidence is the exact value of
  the \<^verbatim>\<open>Decimal\<close>; and the item, whose \<open>ttl\<close> is \<open>None\<close> when the dictionary has no
  \<^verbatim>\<open>ttl\<close> key.
\<close>

record label_record =
  rName :: "string option"
  rConfidence :: rat

record item =
  filename :: json
  labels :: "label_record list"
  timestamp :: string
  branch :: string
  ttl :: "int option"

text \<open>
  The calls on the collaborators, in the order they are issued:
  \<^verbatim>\<open>s3.upload_file(path, bucket, key)\<close>,
  \<^verbatim>\<open>rek.detect_labels(Image={"S3Object": {"Bucket": b, "Name": k}}, MaxLabels=n, MinConfidence=c)\<close>
  and \<^verbatim>\<open>Table(table).put_item(Item=item)\<close>.
\<close>

datatype call =
    UploadFile string string string
  | DetectLabels json json nat rat
  | PutItem string item

record datetime =
  year :: nat
  month :: nat
  day :: nat
  hour :: nat
  minute :: nat
  second :: nat
  microsecond :: nat

text \<open>
  Everything outside the program: the process environment, the listing of
  \<^verbatim>\<open>images/\<close>, the three services and the two clocks. The outcome of a call on a service
  may depend on all the calls issued before it (the first argument), so that the same call
  can succeed once and fail the next time. A service call that raises returns the
  exception. Creating the clients (\<^verbatim>\<open>boto3.client\<close>, \<^verbatim>\<open>boto3.resource\<close>) issues no call
  and is taken to succeed; console output is not part of the model, except where building
  it can raise.
\<close>

record world =
  environ :: "string \<Rightarrow> string option"
  glob_images :: "string list"
  upload_file :: "call list \<Rightarrow> string \<Rightarrow> string \<Rightarrow> string \<Rightarrow> exn option"
  detect_labels :: "call list \<Rightarrow> json \<Rightarrow> json \<Rightarrow> exn + response"
  put_item :: "call list \<Rightarrow> string \<Rightarrow> item \<Rightarrow> exn option"
  utcnow :: "call list \<Rightarrow> datetime"
  time_time :: "call list \<Rightarrow> rat"

text \<open>What a handler returns: \<^verbatim>\<open>{"ok": True, "filename": f, "count": n}\<close> or
  \<^verbatim>\<open>{"ok": False, "error": code}\<close>.\<close>

datatype result = OkResult json nat | ErrResult string

section \<open>Library functions\<close>

subsection \<open>Subscripts\<close>

text \<open>\<^verbatim>\<open>x[k]\<close> for a string \<open>k\<close>: only a dictionary has string keys.\<close>

fun getitem :: "json \<Rightarrow> string \<Rightarrow> exn + json" where
  "getitem (JDict d) k = (case map_of d k of None \<Rightarrow> Inl KeyError | Some v \<Rightarrow> Inr v)"
| "getitem x k = Inl TypeError"

text \<open>\<^verbatim>\<open>x[0]\<close>: the first element of a list, the first character of a string; a decoded
  dictionary has no integer key.\<close>

fun getitem0 :: "json \<Rightarrow> exn + json" where
  "getitem0 (JList []) = Inl IndexError"
| "getitem0 (JList (v # vs)) = Inr v"
| "getitem0 (JStr []) = Inl IndexError"
| "getitem0 (JStr (c # cs)) = Inr (JStr [c])"
| "getitem0 (JDict d) = Inl KeyError"
| "getitem0 x = Inl TypeError"

text \<open>Sequencing of steps that may raise.\<close>

definition and_then :: "exn + 'a \<Rightarrow> ('a \<Rightarrow> exn + 'b) \<Rightarrow> exn + 'b" where
  "and_then r f = (case r of Inl e \<Rightarrow> Inl e | Inr v \<Rightarrow> f v)"

subsection \<open>\<^verbatim>\<open>urllib.parse.unquote_plus\<close>\<close>

text \<open>
  \<^verbatim>\<open>unquote_plus(s)\<close> is \<^verbatim>\<open>unquote(s.replace('+', ' '))\<close>, and \<^verbatim>\<open>unquote\<close> replaces
  every \<^verbatim>\<open>%XY\<close> with two hexadecimal digits by the byte they denote and leaves any other
  \<^verbatim>\<open>%\<close> in place. On the bytes so obtained Python then decodes UTF-8, replacing what is
  not valid UTF-8 by U+FFFD. The model's strings are the bytes before that step: it is the
  string Python returns exactly when these bytes are valid UTF-8 (\<open>valid_utf8\<close> below),
  and the properties of the decoded key are stated for those keys.
\<close>

definition hexdig :: "(char \<times> nat) list" where
  "hexdig = zip ''0123456789ABCDEFabcdef'' ([0..<16] @ [10..<16])"

fun unquote :: "string \<Rightarrow> string" where
  "unquote (c # a # b # s) =
     (if c = CHR ''%'' then
        (case (map_of hexdig a, map_of hexdig b) of
           (Some x, Some y) \<Rightarrow> char_of (16 * x + y) # unquote s
         | _ \<Rightarrow> c # unquote (a # b # s))
      else c # unquote (a # b # s))"
| "unquote s = s"

definition replace_plus :: "string \<Rightarrow> string" where
  "replace_plus s = map (\<lambda>c. if c = CHR ''+'' then CHR '' '' else c) s"

definition unquote_plus :: "string \<Rightarrow> string" where
  "unquote_plus s = unquote (replace_plus s)"

text \<open>Well-formed UTF-8, as the decoder accepts it: no overlong form, no surrogate, nothing
  beyond U+10FFFF.\<close>

definition byte_in :: "char \<Rightarrow> nat \<Rightarrow> nat \<Rightarrow> bool" where
  "byte_in c lo hi = (lo \<le> of_char c \<and> (of_char c :: nat) \<le> hi)"

fun valid_utf8 :: "string \<Rightarrow> bool" where
  "valid_utf8 [] = True"
| "valid_utf8 (a # s) =
     (if byte_in a 0 127 then valid_utf8 s
      else if byte_in a 194 223 then
        (case s of b # s' \<Rightarrow> byte_in b 128 191 \<and> valid_utf8 s' | _ \<Rightarrow> False)
      else if byte_in a 224 239 then
        (case s of
           b # c # s' \<Rightarrow>
             byte_in b (if a = char_of (224::nat) then 160 else 128)
                       (if a = char_of (237::nat) then 159 else 191) \<and>
             byte_in c 128 191 \<and> valid_utf8 s'
         | _ \<Rightarrow> False)
      else if byte_in a 240 244 then
        (case s of
           b # c # d # s' \<Rightarrow>
             byte_in b (if a = char_of (240::nat) then 144 else 128)
                       (if a = char_of (244::nat) then 143 else 191) \<and>
             byte_in c 128 191 \<and> byte_in d 128 191 \<and> valid_utf8 s'
         | _ \<Rightarrow> False)
      else False)"

text \<open>On a value that is not a string, \<^verbatim>\<open>string.replace\<close> does not exist.\<close>

fun unquote_plus_val :: "json \<Rightarrow> exn + string" where
  "unquote_plus_val (JStr s) = Inr (unquote_plus s)"
| "unquote_plus_val x = Inl AttributeError"

subsection \<open>Numbers and clocks\<close>

text \<open>
  \<^verbatim>\<open>round(x, 2)\<close> on a float takes the decimal with two fractional digits nearest to the
  exact value of \<open>x\<close>, a tie going to the even last digit, and returns the float nearest to
  that decimal; \<^verbatim>\<open>str\<close> prints the shortest decimal that reads back as that float, and
  \<^verbatim>\<open>Decimal\<close> of that text has exactly its value. For a confidence, a percentage, the
  decimal printed is the decimal \<^verbatim>\<open>round\<close> took, and \<open>decimal_round2 x\<close> is that
  decimal: the value of \<^verbatim>\<open>Decimal(str(round(x, 2)))\<close> for \<open>x\<close> from 1 to 100, which is
  proved below against the reading and printing of floats. For floats beyond some
  \<open>2\<close> to the \<open>46\<close> the text printed is shorter than two fractional digits and this
  definition is not what the code stores; the properties of the stored value are stated
  for confidences from 1 to 100.
\<close>

definition round_half_even :: "rat \<Rightarrow> int" where
  "round_half_even x =
     (let f = \<lfloor>x\<rfloor>; d = x - of_int f
      in if d < 1 / 2 then f else if 1 / 2 < d then f + 1 else if even f then f else f + 1)"

definition decimal_round2 :: "rat \<Rightarrow> rat" where
  "decimal_round2 x = of_int (round_half_even (x * 100)) / 100"

text \<open>\<^verbatim>\<open>int(x)\<close> on a float truncates towards zero.\<close>

definition py_int :: "rat \<Rightarrow> int" where
  "py_int x = (if 0 \<le> x then \<lfloor>x\<rfloor> else \<lceil>x\<rceil>)"

definition digit :: "nat \<Rightarrow> char" where
  "digit n = char_of (48 + n mod 10)"

definition pad2 :: "nat \<Rightarrow> string" where
  "pad2 n = [digit (n div 10), digit n]"

definition pad4 :: "nat \<Rightarrow> string" where
  "pad4 n = [digit (n div 1000), digit (n div 100), digit (n div 10), digit n]"

definition pad6 :: "nat \<Rightarrow> string" where
  "pad6 n = [digit (n div 100000), digit (n div 10000)] @ pad4 n"

text \<open>\<^verbatim>\<open>datetime.isoformat()\<close>: the fraction is printed only when it is not zero.\<close>

definition isoformat :: "datetime \<Rightarrow> string" where
  "isoformat d =
     pad4 (year d) @ ''-'' @ pad2 (month d) @ ''-'' @ pad2 (day d) @ ''T'' @
     pad2 (hour d) @ '':'' @ pad2 (minute d) @ '':'' @ pad2 (second d) @
     (if microsecond d = 0 then [] else ''.'' @ pad6 (microsecond d))"

text \<open>\<^verbatim>\<open>iso_now\<close>, the same in the three files; the clock is read after the calls \<open>cs\<close>.\<close>

definition iso_now :: "world \<Rightarrow> call list \<Rightarrow> string" where
  "iso_now w cs = isoformat ((utcnow w cs)\<lparr>microsecond := 0\<rparr>) @ ''Z''"

subsection \<open>\<^verbatim>\<open>pathlib\<close> and \<^verbatim>\<open>json.dumps\<close>\<close>

text \<open>\<^verbatim>\<open>s.rfind(c)\<close>: the last index of \<open>c\<close>, or \<open>-1\<close>. Scanning from the end, the index
  is the number of characters left before the first \<open>c\<close> met.\<close>

definition rfind :: "char \<Rightarrow> string \<Rightarrow> int" where
  "rfind c s =
     (case dropWhile (\<lambda>x. x \<noteq> c) (rev s) of [] \<Rightarrow> - 1 | x # r \<Rightarrow> int (length r))"

text \<open>\<^verbatim>\<open>PurePath.suffix\<close> of a file name, as \<^verbatim>\<open>pathlib\<close> computes it up to Python
  3.12: from the last dot on, when that dot is neither the first nor the last character.\<close>

definition suffix_of :: "string \<Rightarrow> string" where
  "suffix_of name =
     (let i = rfind CHR ''.'' name
      in if 0 < i \<and> i < int (length name) - 1 then drop (nat i) name else [])"

text \<open>\<^verbatim>\<open>str.lower()\<close>, on the ASCII letters; the bytes of other characters are kept.\<close>

definition lower_char :: "char \<Rightarrow> char" where
  "lower_char c =
     (let n = (of_char c :: nat) in if 65 \<le> n \<and> n \<le> 90 then char_of (n + 32) else c)"

definition lower :: "string \<Rightarrow> string" where
  "lower s = map lower_char s"

text \<open>\<^verbatim>\<open>json.dumps(item)\<close> raises \<^verbatim>\<open>TypeError\<close> on a \<^verbatim>\<open>Decimal\<close>, which it cannot
  serialise: that is, as soon as the item holds a label record.\<close>

definition json_dumps :: "item \<Rightarrow> exn option" where
  "json_dumps it = (if labels it = [] then None else Some TypeError)"

section \<open>The label normalizer\<close>

text \<open>\<^verbatim>\<open>d.get(k)\<close>: \<^verbatim>\<open>None\<close> for an absent key as for a key bound to \<^verbatim>\<open>None\<close>.\<close>

fun dict_get :: "'a field \<Rightarrow> 'a option" where
  "dict_get (Val v) = Some v"
| "dict_get f = None"

text \<open>\<^verbatim>\<open>build_labels\<close> of \<^verbatim>\<open>src/lambda/lambda_handler.py\<close>: the loop, with the list
  it appends to.\<close>

fun build_labels_loop :: "rek_label list \<Rightarrow> label_record list \<Rightarrow> label_record list" where
  "build_labels_loop [] acc = acc"
| "build_labels_loop (lbl # rest) acc =
     (case (dict_get (Name lbl), dict_get (Confidence lbl)) of
        (Some name, Some conf) \<Rightarrow>
          build_labels_loop rest
            (acc @ [\<lparr>rName = Some name, rConfidence = decimal_round2 conf\<rparr>])
      | _ \<Rightarrow> build_labels_loop rest acc)"

definition build_labels :: "response \<Rightarrow> label_record list" where
  "build_labels resp =
     build_labels_loop (case dict_get (Labels resp) of None \<Rightarrow> [] | Some ls \<Rightarrow> ls) []"

text \<open>
  The list comprehension of \<^verbatim>\<open>src/lambda_handler.py\<close> and \<^verbatim>\<open>src/analyze_image.py\<close>:
  \<^verbatim>\<open>l["Name"]\<close> and \<^verbatim>\<open>l["Confidence"]\<close> raise on an absent key, and
  \<^verbatim>\<open>round(None, 2)\<close> raises.
\<close>

definition label_of :: "rek_label \<Rightarrow> exn + label_record" where
  "label_of l =
     (case Name l of
        Missing \<Rightarrow> Inl KeyError
      | n \<Rightarrow>
        (case Confidence l of
           Missing \<Rightarrow> Inl KeyError
         | Null \<Rightarrow> Inl TypeError
         | Val c \<Rightarrow> Inr \<lparr>rName = dict_get n, rConfidence = decimal_round2 c\<rparr>))"

fun labels_of :: "rek_label list \<Rightarrow> exn + label_record list" where
  "labels_of [] = Inr []"
| "labels_of (l # ls) =
     and_then (label_of l) (\<lambda>r. and_then (labels_of ls) (\<lambda>rs. Inr (r # rs)))"

text \<open>\<^verbatim>\<open>resp.get("Labels", [])\<close> gives \<^verbatim>\<open>None\<close> for a key bound to \<^verbatim>\<open>None\<close>, which
  cannot be iterated.\<close>

definition labels_inline :: "response \<Rightarrow> exn + label_record list" where
  "labels_inline resp =
     (case Labels resp of Missing \<Rightarrow> Inr [] | Null \<Rightarrow> Inl TypeError | Val ls \<Rightarrow> labels_of ls)"

section \<open>The event handler of \<^verbatim>\<open>src/lambda/lambda_handler.py\<close>\<close>

text \<open>
  The body of the first \<^verbatim>\<open>try\<close>: \<^verbatim>\<open>rec = event["Records"][0]\<close>,
  \<^verbatim>\<open>bucket = rec["s3"]["bucket"]["name"]\<close>,
  \<^verbatim>\<open>key = unquote_plus(rec["s3"]["object"]["key"])\<close>.
\<close>

definition parse_event :: "json \<Rightarrow> exn + json \<times> string" where
  "parse_event event =
     and_then (and_then (getitem event ''Records'') getitem0) (\<lambda>r.
     and_then (and_then (and_then (getitem r ''s3'') (\<lambda>s. getitem s ''bucket''))
                 (\<lambda>b. getitem b ''name'')) (\<lambda>bucket.
     and_then (and_then (and_then (getitem r ''s3'') (\<lambda>s. getitem s ''object''))
                 (\<lambda>ob. getitem ob ''key'')) (\<lambda>k.
     and_then (unquote_plus_val k) (\<lambda>key. Inr (bucket, key)))))"

text \<open>
  The handler returns what the invoking runtime sees, \<open>Inl e\<close> for an exception that leaves
  the handler, and the calls it issued. \<^verbatim>\<open>os.environ["DDB_TABLE"]\<close> raises when the
  variable is not set. The first \<^verbatim>\<open>put_item\<close> (line 93) stands outside any \<^verbatim>\<open>try\<close>;
  the second (line 105) is guarded by \<^verbatim>\<open>except ClientError\<close>, as the detection call is.
  The region only selects the endpoint of the clients.
\<close>

definition handler :: "world \<Rightarrow> json \<Rightarrow> (exn + result) \<times> call list" where
  "handler w event =
     (case environ w ''DDB_TABLE'' of
        None \<Rightarrow> (Inl KeyError, [])
      | Some table_name \<Rightarrow>
        let hint = (case environ w ''BRANCH_HINT'' of None \<Rightarrow> ''Lambda'' | Some b \<Rightarrow> b) in
        (case parse_event event of
           Inl e \<Rightarrow> (Inr (ErrResult ''bad_event''), [])
         | Inr (bucket, key) \<Rightarrow>
           let c1 = [DetectLabels bucket (JStr key) 10 70] in
           (case detect_labels w [] bucket (JStr key) of
              Inl e \<Rightarrow>
                (if is_ClientError e then Inr (ErrResult ''rekognition_failed'') else Inl e, c1)
            | Inr resp \<Rightarrow>
              let lbls = build_labels resp;
                  it0 = \<lparr>filename = JStr key, labels = lbls, timestamp = iso_now w c1,
                         branch = hint, ttl = None\<rparr>;
                  it = it0\<lparr>ttl := Some (py_int (time_time w c1) + 7 * 24 * 60 * 60)\<rparr>;
                  c2 = c1 @ [PutItem table_name it]
              in (case put_item w c1 table_name it of
                    Some e \<Rightarrow> (Inl e, c2)
                  | None \<Rightarrow>
                    let c3 = c2 @ [PutItem table_name it] in
                    (case put_item w c2 table_name it of
                       Some e \<Rightarrow>
                         (if is_ClientError e then Inr (ErrResult ''ddb_failed'') else Inl e, c3)
                     | None \<Rightarrow> (Inr (OkResult (JStr key) (length lbls)), c3))))))"

section \<open>The event handler of \<^verbatim>\<open>src/lambda_handler.py\<close>\<close>

text \<open>The same three subscripts, with no \<^verbatim>\<open>try\<close> around them and the key taken as it
  is.\<close>

definition parse_event_root :: "json \<Rightarrow> exn + json \<times> json" where
  "parse_event_root event =
     and_then (and_then (getitem event ''Records'') getitem0) (\<lambda>r.
     and_then (and_then (and_then (getitem r ''s3'') (\<lambda>s. getitem s ''bucket''))
                 (\<lambda>b. getitem b ''name'')) (\<lambda>bucket.
     and_then (and_then (and_then (getitem r ''s3'') (\<lambda>s. getitem s ''object''))
                 (\<lambda>ob. getitem ob ''key'')) (\<lambda>key. Inr (bucket, key))))"

definition handler_root :: "world \<Rightarrow> json \<Rightarrow> (exn + result) \<times> call list" where
  "handler_root w event =
     (case environ w ''AWS_REGION'' of
        None \<Rightarrow> (Inl KeyError, [])
      | Some region \<Rightarrow>
        (case environ w ''DDB_TABLE'' of
           None \<Rightarrow> (Inl KeyError, [])
         | Some table \<Rightarrow>
           (case parse_event_root event of
              Inl e \<Rightarrow> (Inl e, [])
            | Inr (bucket, key) \<Rightarrow>
              let c1 = [DetectLabels bucket key 10 70] in
              (case detect_labels w [] bucket key of
                 Inl e \<Rightarrow> (Inl e, c1)
               | Inr resp \<Rightarrow>
                 (case labels_inline resp of
                    Inl e \<Rightarrow> (Inl e, c1)
                  | Inr lbls \<Rightarrow>
                    let it = \<lparr>filename = key, labels = lbls, timestamp = iso_now w c1,
                              branch = (case environ w ''BRANCH_HINT'' of
                                          None \<Rightarrow> ''lambda'' | Some b \<Rightarrow> b),
                              ttl = None\<rparr>;
                        c2 = c1 @ [PutItem table it]
                    in (case put_item w c1 table it of
                          Some e \<Rightarrow> (Inl e, c2)
                        | None \<Rightarrow> (Inr (OkResult (filename it) (length lbls)), c2)))))))"

section \<open>The batch driver of \<^verbatim>\<open>src/analyze_image.py\<close>\<close>

text \<open>The filter of the listing: \<^verbatim>\<open>p.suffix.lower() in {".jpg", ".jpeg", ".png"}\<close>.\<close>

definition is_image :: "string \<Rightarrow> bool" where
  "is_image name = (lower (suffix_of name) \<in> set [''.jpg'', ''.jpeg'', ''.png''])"

text \<open>
  The object key \<^verbatim>\<open>f"rekognition-input/{path.name}"\<close> and the path \<^verbatim>\<open>str(path)\<close> of a
  name in the listing. The \<^verbatim>\<open>for\<close> loop over the selected names, with the calls issued so
  far. Any exception
  ends the driver: there is no \<^verbatim>\<open>try\<close> in the file. The item is serialised for the
  console before it is written.
\<close>

definition object_key :: "string \<Rightarrow> string" where
  "object_key name = ''rekognition-input/'' @ name"

definition image_path :: "string \<Rightarrow> string" where
  "image_path name = ''images/'' @ name"

fun process_files ::
  "world \<Rightarrow> string \<Rightarrow> string \<Rightarrow> string \<Rightarrow> string list \<Rightarrow> call list \<Rightarrow> exn option \<times> call list"
where
  "process_files w s3_bucket ddb_table hint [] cs = (None, cs)"
| "process_files w s3_bucket ddb_table hint (name # rest) cs =
     (let key = object_key name;
          path = image_path name;
          c1 = cs @ [UploadFile path s3_bucket key]
      in case upload_file w cs path s3_bucket key of
           Some e \<Rightarrow> (Some e, c1)
         | None \<Rightarrow>
           let c2 = c1 @ [DetectLabels (JStr s3_bucket) (JStr key) 10 70] in
           (case detect_labels w c1 (JStr s3_bucket) (JStr key) of
              Inl e \<Rightarrow> (Some e, c2)
            | Inr resp \<Rightarrow>
              (case labels_inline resp of
                 Inl e \<Rightarrow> (Some e, c2)
               | Inr lbls \<Rightarrow>
                 let it = \<lparr>filename = JStr (object_key name), labels = lbls,
                           timestamp = iso_now w c2, branch = hint, ttl = None\<rparr>
                 in (case json_dumps it of
                       Some e \<Rightarrow> (Some e, c2)
                     | None \<Rightarrow>
                       let c3 = c2 @ [PutItem ddb_table it] in
                       (case put_item w c2 ddb_table it of
                          Some e \<Rightarrow> (Some e, c3)
                        | None \<Rightarrow> process_files w s3_bucket ddb_table hint rest c3)))))"

text \<open>\<^verbatim>\<open>main\<close>: \<open>None\<close> when it returns, \<open>Some e\<close> when \<open>e\<close> ends the process.\<close>

definition main :: "world \<Rightarrow> exn option \<times> call list" where
  "main w =
     (case environ w ''AWS_REGION'' of
        None \<Rightarrow> (Some KeyError, [])
      | Some aws_region \<Rightarrow>
        (case environ w ''S3_BUCKET'' of
           None \<Rightarrow> (Some KeyError, [])
         | Some s3_bucket \<Rightarrow>
           (case environ w ''DYNAMODB_TABLE'' of
              None \<Rightarrow> (Some KeyError, [])
            | Some ddb_table \<Rightarrow>
              let hint = (case environ w ''GITHUB_REF_NAME'' of
                            None \<Rightarrow> ''unknown'' | Some b \<Rightarrow> b);
                  files = filter is_image (glob_images w)
              in if files = [] then (None, [])
                 else process_files w s3_bucket ddb_table hint files [])))"

section \<open>Vocabulary of the properties\<close>

text \<open>The object key a call is about: the key uploaded to, the key of the image analysed,
  the \<open>filename\<close> of the item written.\<close>

fun call_key :: "call \<Rightarrow> json" where
  "call_key (UploadFile p b k) = JStr k"
| "call_key (DetectLabels b k n c) = k"
| "call_key (PutItem t it) = filename it"

text \<open>The value bound to a key, when the value at hand is a mapping that has the key.\<close>

definition member :: "json \<Rightarrow> string \<Rightarrow> json option" where
  "member x k = (case x of JDict d \<Rightarrow> map_of d k | _ \<Rightarrow> None)"

text \<open>The shape a notification is required to have:
  \<^verbatim>\<open>{Records: [{s3: {bucket: {name}, object: {key}}}, ...]}\<close>.\<close>

definition has_records_shape :: "json \<Rightarrow> bool" where
  "has_records_shape ev =
     (case member ev ''Records'' of
        Some (JList (r # rs)) \<Rightarrow>
          (case member r ''s3'' of
             Some s \<Rightarrow>
               (case member s ''bucket'' of
                  Some b \<Rightarrow> member b ''name'' \<noteq> None | None \<Rightarrow> False) \<and>
               (case member s ''object'' of
                  Some ob \<Rightarrow> member ob ''key'' \<noteq> None | None \<Rightarrow> False)
           | None \<Rightarrow> False)
      | _ \<Rightarrow> False)"

text \<open>The notification of one object written, with nothing but the required shape.\<close>

definition notification :: "json \<Rightarrow> json \<Rightarrow> json" where
  "notification b k =
     JDict [(''Records'', JList [JDict [(''s3'',
       JDict [(''bucket'', JDict [(''name'', b)]), (''object'', JDict [(''key'', k)])])]])]"

text \<open>A world where every variable is set, every call succeeds, nothing is detected and
  \<^verbatim>\<open>images/\<close> is empty; the concrete worlds below differ from it in one field.\<close>

definition quiet_world :: world where
  "quiet_world =
     \<lparr>environ = [''REGION'' \<mapsto> ''eu-west-1'', ''AWS_REGION'' \<mapsto> ''eu-west-1'',
                 ''DDB_TABLE'' \<mapsto> ''results'', ''S3_BUCKET'' \<mapsto> ''uploads'',
                 ''DYNAMODB_TABLE'' \<mapsto> ''results''],
      glob_images = [],
      upload_file = (\<lambda>cs p b k. None),
      detect_labels = (\<lambda>cs b k. Inr \<lparr>Labels = Val []\<rparr>),
      put_item = (\<lambda>cs t it. None),
      utcnow = (\<lambda>cs. \<lparr>year = 2024, month = 5, day = 7, hour = 12, minute = 0, second = 9,
                        microsecond = 431\<rparr>),
      time_time = (\<lambda>cs. 17150832094 / 10)\<rparr>"



text \<open>The table rejects every write.\<close>

definition write_fails_world :: world where
  "write_fails_world =
     quiet_world\<lparr>put_item :=
       (\<lambda>cs t it. Some (ClientError ''ProvisionedThroughputExceededException''))\<rparr>"

definition upload_event :: json where
  "upload_event = notification (JStr ''uploads'') (JStr ''a.jpg'')"

text \<open>The item the first handler builds for \<open>upload_event\<close> in these worlds.\<close>

definition stamped_item :: item where
  "stamped_item =
     \<lparr>filename = JStr ''a.jpg'', labels = [], timestamp = ''2024-05-07T12:00:09Z'',
      branch = ''Lambda'', ttl = Some 1715688009\<rparr>"

text \<open>The labeling service returns three entries, the second without a name.\<close>

definition two_labels :: response where
  "two_labels =
     \<lparr>Labels = Val [\<lparr>Name = Val ''Shoe'', Confidence = Val (91236 / 1000)\<rparr>,
                    \<lparr>Name = Missing, Confidence = Val 88\<rparr>,
                    \<lparr>Name = Val ''Sneaker'', Confidence = Val (1735 / 20)\<rparr>]\<rparr>"

definition nameless_world :: world where
  "nameless_world = quiet_world\<lparr>detect_labels := (\<lambda>cs b k. Inr two_labels)\<rparr>"

text \<open>Three entries in \<^verbatim>\<open>images/\<close>, two of them images.\<close>

definition photo_world :: world where
  "photo_world = quiet_world\<lparr>glob_images := [''cat.PNG'', ''notes.txt'', ''dog.jpeg'']\<rparr>"

text \<open>The same listing, and a labeling service that detects a cat in every image.\<close>

definition labelled_photo_world :: world where
  "labelled_photo_world =
     photo_world\<lparr>detect_labels :=
       (\<lambda>cs b k. Inr \<lparr>Labels = Val [\<lparr>Name = Val ''Cat'', Confidence = Val 99\<rparr>]\<rparr>)\<rparr>"

text \<open>The well-formed entries of a response, as pairs of name and confidence, in the
  order of the response: the entries where both keys are bound to a value.\<close>

definition well_formed_entries :: "rek_label list \<Rightarrow> (string \<times> rat) list" where
  "well_formed_entries ls =
     concat (map (\<lambda>l. case (Name l, Confidence l) of
                         (Val n, Val c) \<Rightarrow> [(n, c)] | _ \<Rightarrow> []) ls)"

fun absent :: "'a field \<Rightarrow> bool" where
  "absent (Val v) = False"
| "absent f = True"

text \<open>A malformed entry misses its name or its confidence.\<close>

definition malformed :: "rek_label \<Rightarrow> bool" where
  "malformed l = (absent (Name l) \<or> absent (Confidence l))"

text \<open>The outline of a sequence of calls: which operation, on which object key.\<close>

datatype op = Upload | Detect | Write

fun call_op :: "call \<Rightarrow> op" where
  "call_op (UploadFile p b k) = Upload"
| "call_op (DetectLabels b k n c) = Detect"
| "call_op (PutItem t it) = Write"

definition outline :: "call list \<Rightarrow> (op \<times> json) list" where
  "outline cs = map (\<lambda>c. (call_op c, call_key c)) cs"

text \<open>Processing one file in full: upload, detection, write, all on the key derived from
  its name.\<close>

definition file_outline :: "string \<Rightarrow> (op \<times> json) list" where
  "file_outline name =
     map (\<lambda>p. (p, JStr (object_key name))) [Upload, Detect, Write]"







section \<open>Parsing the notification\<close>

lemma and_then_Inl [simp]: "and_then (Inl e) f = Inl e"
  by (simp add: and_then_def)

lemma and_then_Inr [simp]: "and_then (Inr v) f = f v"
  by (simp add: and_then_def)

lemma and_then_eq_Inr: "and_then r f = Inr y \<longleftrightarrow> (\<exists>v. r = Inr v \<and> f v = Inr y)"
  by (cases r) simp_all

text \<open>The two handlers read the same three subscripts; the first one decodes the key.\<close>

lemma parse_event_via_root:
  "parse_event ev =
     and_then (parse_event_root ev)
       (\<lambda>(b, k). and_then (unquote_plus_val k) (\<lambda>key. Inr (b, key)))"
  unfolding parse_event_def parse_event_root_def
  by (auto simp: and_then_def split: sum.splits)

lemma parse_event_decodes:
  "parse_event_root ev = Inr (b, JStr k) \<Longrightarrow> parse_event ev = Inr (b, unquote_plus k)"
  by (simp add: parse_event_via_root)

lemma parse_notification [simp]: "parse_event_root (notification b k) = Inr (b, k)"
  by (simp add: parse_event_root_def notification_def)

lemma getitem_Inr: "getitem x k = Inr v \<longleftrightarrow> member x k = Some v"
  by (cases x) (auto simp: member_def split: option.splits)

lemma getitem0_then_getitem:
  "getitem0 x = Inr r \<Longrightarrow> getitem r k = Inr s \<Longrightarrow> \<exists>rs. x = JList (r # rs)"
  by (cases x rule: getitem0.cases) auto

lemma parse_event_root_shape:
  assumes "parse_event_root ev = Inr p"
  shows "has_records_shape ev"
proof -
  from assms obtain recs r s b n s' ob k where
    g: "getitem ev ''Records'' = Inr recs" "getitem0 recs = Inr r"
       "getitem r ''s3'' = Inr s" "getitem s ''bucket'' = Inr b" "getitem b ''name'' = Inr n"
       "getitem r ''s3'' = Inr s'" "getitem s' ''object'' = Inr ob" "getitem ob ''key'' = Inr k"
    unfolding parse_event_root_def and_then_eq_Inr by blast
  from g(2,3) obtain rs where recs: "recs = JList (r # rs)"
    by (blast dest: getitem0_then_getitem)
  from g(3,6) have "s' = s" by simp
  with g recs show ?thesis
    by (simp add: has_records_shape_def getitem_Inr)
qed

lemma parse_event_shape: "parse_event ev = Inr p \<Longrightarrow> has_records_shape ev"
  unfolding parse_event_via_root and_then_eq_Inr by (blast intro: parse_event_root_shape)

section \<open>Failure isolation\<close>




text \<open>
  C2: parsing and detection succeed and the table rejects the write. The first
  \<^verbatim>\<open>put_item\<close>, which no \<^verbatim>\<open>try\<close> guards, raises, and the \<^verbatim>\<open>ClientError\<close> leaves the
  handler where \<^verbatim>\<open>ddb_failed\<close> was to be returned.
\<close>

theorem handler_unguarded_write_raises:
  "handler write_fails_world upload_event =
     (Inl (ClientError ''ProvisionedThroughputExceededException''),
      [DetectLabels (JStr ''uploads'') (JStr ''a.jpg'') 10 70, PutItem ''results'' stamped_item])"
  by code_simp

text \<open>
  C3: on an event handled with success the first handler issues the write twice, with the
  same item.
\<close>

theorem handler_writes_twice:
  "handler quiet_world upload_event =
     (Inr (OkResult (JStr ''a.jpg'') 0),
      [DetectLabels (JStr ''uploads'') (JStr ''a.jpg'') 10 70,
       PutItem ''results'' stamped_item, PutItem ''results'' stamped_item])"
  by code_simp

text \<open>That holds of every event handled with success: the first handler writes the same
  item twice, the handler of \<^verbatim>\<open>src/lambda_handler.py\<close> writes once.\<close>

lemma handler_ok_calls:
  assumes "fst (handler w ev) = Inr (OkResult f n)"
  shows "\<exists>d t it. snd (handler w ev) = [d, PutItem t it, PutItem t it]"
  using assms unfolding handler_def Let_def
  by (auto split: sum.splits option.splits if_splits)

lemma handler_root_ok_calls:
  assumes "fst (handler_root w ev) = Inr (OkResult f n)"
  shows "\<exists>d t it. snd (handler_root w ev) = [d, PutItem t it]"
  using assms unfolding handler_root_def Let_def
  by (auto split: sum.splits option.splits if_splits)

section \<open>The normalizer\<close>

lemma build_labels_loop_eq:
  "build_labels_loop ls acc =
     acc @ map (\<lambda>(n, c). \<lparr>rName = Some n, rConfidence = decimal_round2 c\<rparr>)
             (well_formed_entries ls)"
proof (induction ls arbitrary: acc)
  case Nil
  then show ?case by (simp add: well_formed_entries_def)
next
  case (Cons l ls)
  show ?case
  proof (cases "Name l")
    case (Val n)
    show ?thesis
    proof (cases "Confidence l")
      case (Val c)
      with \<open>Name l = Val n\<close> Cons show ?thesis by (simp add: well_formed_entries_def)
    qed (use \<open>Name l = Val n\<close> Cons in \<open>simp_all add: well_formed_entries_def\<close>)
  qed (use Cons in \<open>simp_all add: well_formed_entries_def\<close>)
qed

lemma well_formed_entries_malformed:
  "malformed m \<Longrightarrow> well_formed_entries (xs @ m # ys) = well_formed_entries (xs @ ys)"
  by (cases "Name m"; cases "Confidence m") (simp_all add: well_formed_entries_def malformed_def)

text \<open>
  C5, as amended. \<^verbatim>\<open>build_labels\<close> of \<^verbatim>\<open>src/lambda/lambda_handler.py\<close> returns one
  record for each well-formed entry, in the order of the response; an entry that misses its
  name or its confidence can be removed from the response without changing the result; a
  response without labels gives the empty list. The function is total: nothing is raised.
\<close>

theorem build_labels_normalizes:
  "build_labels \<lparr>Labels = Val ls\<rparr> =
     map (\<lambda>(n, c). \<lparr>rName = Some n, rConfidence = decimal_round2 c\<rparr>)
       (well_formed_entries ls) \<and>
   (malformed m \<longrightarrow>
      build_labels \<lparr>Labels = Val (xs @ m # ys)\<rparr> = build_labels \<lparr>Labels = Val (xs @ ys)\<rparr>) \<and>
   build_labels \<lparr>Labels = Missing\<rparr> = [] \<and> build_labels \<lparr>Labels = Null\<rparr> = []"
  by (simp add: build_labels_def build_labels_loop_eq well_formed_entries_malformed)
    (simp add: well_formed_entries_def)

theorem build_labels_normalizes_witness:
  "malformed \<lparr>Name = Missing, Confidence = Val 88\<rparr> \<and>
   build_labels two_labels =
     [\<lparr>rName = Some ''Shoe'', rConfidence = 9124 / 100\<rparr>,
      \<lparr>rName = Some ''Sneaker'', rConfidence = 8675 / 100\<rparr>] \<and>
   build_labels two_labels =
     build_labels \<lparr>Labels = Val [\<lparr>Name = Val ''Shoe'', Confidence = Val (91236 / 1000)\<rparr>,
                                 \<lparr>Name = Val ''Sneaker'', Confidence = Val (1735 / 20)\<rparr>]\<rparr>"
proof -
  let ?a = "\<lparr>Name = Val ''Shoe'', Confidence = Val (91236 / 1000)\<rparr>"
  let ?m = "\<lparr>Name = Missing, Confidence = Val 88\<rparr>"
  let ?b = "\<lparr>Name = Val ''Sneaker'', Confidence = Val (1735 / 20)\<rparr>"
  note t = build_labels_normalizes [of "[?a] @ ?m # [?b]" ?m "[?a]" "[?b]"]
  have m: "malformed ?m"
    by (simp add: malformed_def)
  have w: "map (\<lambda>(n, c). \<lparr>rName = Some n, rConfidence = decimal_round2 c\<rparr>)
             (well_formed_entries ([?a] @ ?m # [?b]))
           = [\<lparr>rName = Some ''Shoe'', rConfidence = 9124 / 100\<rparr>,
              \<lparr>rName = Some ''Sneaker'', rConfidence = 8675 / 100\<rparr>]"
    by code_simp
  have u: "two_labels = \<lparr>Labels = Val ([?a] @ ?m # [?b])\<rparr>"
    unfolding two_labels_def append.simps by (rule refl)
  have 1: "build_labels two_labels =
             [\<lparr>rName = Some ''Shoe'', rConfidence = 9124 / 100\<rparr>,
              \<lparr>rName = Some ''Sneaker'', rConfidence = 8675 / 100\<rparr>]"
    unfolding u using t w by (rule trans [OF conjunct1])
  have 2: "build_labels two_labels = build_labels \<lparr>Labels = Val ([?a] @ [?b])\<rparr>"
    unfolding u using t m by blast
  from m 1 2 [unfolded append.simps] show ?thesis by blast
qed

text \<open>
  C5 as stated fails on the list comprehension of \<^verbatim>\<open>src/lambda_handler.py\<close>:
  \<^verbatim>\<open>l["Name"]\<close> raises \<^verbatim>\<open>KeyError\<close> on the entry without a name, and the exception
  leaves the handler after the detection call.
\<close>

theorem handler_root_malformed_entry_counterexample:
  "handler_root nameless_world upload_event =
     (Inl KeyError, [DetectLabels (JStr ''uploads'') (JStr ''a.jpg'') 10 70])"
  by code_simp

section \<open>Rounding the confidence\<close>


























section \<open>Decoding the object key\<close>






text \<open>Once the notification is parsed, every call of the first handler is about the
  parsed key, and so is the result.\<close>

lemma handler_keys:
  assumes "environ w ''DDB_TABLE'' = Some t" and "parse_event ev = Inr (b, key)"
  shows "set (map call_key (snd (handler w ev))) = {JStr key}"
  using assms unfolding handler_def Let_def
  by (auto split: sum.splits option.splits)

lemma handler_result_key:
  assumes "environ w ''DDB_TABLE'' = Some t" and "parse_event ev = Inr (b, key)"
    and "fst (handler w ev) = Inr (OkResult f n)"
  shows "f = JStr key"
  using assms unfolding handler_def Let_def
  by (auto split: sum.splits option.splits if_splits)

text \<open>
  C6, as amended. When the notification carries the string \<open>k\<close> as its key, and the
  escapes of \<open>k\<close> decode to valid UTF-8, every call
  the handler of \<^verbatim>\<open>src/lambda/lambda_handler.py\<close> issues (the detection, the writes) is
  about the decoded key, and so is the file name it returns; the key
  \<^verbatim>\<open>rekognition-input%2Fprod%2Fx.jpg\<close> decodes to \<^verbatim>\<open>rekognition-input/prod/x.jpg\<close>.
\<close>

theorem handler_decodes_key:
  assumes "environ w ''DDB_TABLE'' = Some t" and "parse_event_root ev = Inr (b, JStr k)"
    and "valid_utf8 (unquote_plus k)"
  shows "set (map call_key (snd (handler w ev))) = {JStr (unquote_plus k)} \<and>
         (\<forall>f n. fst (handler w ev) = Inr (OkResult f n) \<longrightarrow> f = JStr (unquote_plus k)) \<and>
         unquote_plus ''rekognition-input%2Fprod%2Fx.jpg'' = ''rekognition-input/prod/x.jpg''"
proof -
  have p: "parse_event ev = Inr (b, unquote_plus k)"
    using assms(2) by (rule parse_event_decodes)
  have "unquote_plus ''rekognition-input%2Fprod%2Fx.jpg'' = ''rekognition-input/prod/x.jpg''"
    by code_simp
  with handler_keys [OF assms(1) p] handler_result_key [OF assms(1) p] show ?thesis
    by blast
qed

theorem handler_decodes_key_witness:
  "environ quiet_world ''DDB_TABLE'' = Some ''results'' \<and>
   parse_event_root (notification (JStr ''uploads'') (JStr ''rekognition-input%2Fprod%2Fx.jpg''))
     = Inr (JStr ''uploads'', JStr ''rekognition-input%2Fprod%2Fx.jpg'') \<and>
   valid_utf8 (unquote_plus ''rekognition-input%2Fprod%2Fx.jpg'') \<and>
   set (map call_key (snd (handler quiet_world
          (notification (JStr ''uploads'') (JStr ''rekognition-input%2Fprod%2Fx.jpg'')))))
     = {JStr ''rekognition-input/prod/x.jpg''}"
proof -
  have e: "environ quiet_world ''DDB_TABLE'' = Some ''results''"
    by (simp add: quiet_world_def)
  have u: "unquote_plus ''rekognition-input%2Fprod%2Fx.jpg'' = ''rekognition-input/prod/x.jpg''"
    by code_simp
  have v: "valid_utf8 (unquote_plus ''rekognition-input%2Fprod%2Fx.jpg'')"
    by code_simp
  from handler_decodes_key [where w = quiet_world and b = "JStr ''uploads''"
      and k = "''rekognition-input%2Fprod%2Fx.jpg''", OF e parse_notification v]
  show ?thesis using e u v by simp
qed

text \<open>
  C6 as stated fails on the handler of \<^verbatim>\<open>src/lambda_handler.py\<close>, which takes the key as
  it comes: the detection call and the item written keep the percent-escapes.
\<close>

theorem handler_root_keeps_raw_key_counterexample:
  "handler_root quiet_world
     (notification (JStr ''uploads'') (JStr ''rekognition-input%2Fprod%2Fx.jpg''))
     = (Inr (OkResult (JStr ''rekognition-input%2Fprod%2Fx.jpg'') 0),
        [DetectLabels (JStr ''uploads'') (JStr ''rekognition-input%2Fprod%2Fx.jpg'') 10 70,
         PutItem ''results''
           \<lparr>filename = JStr ''rekognition-input%2Fprod%2Fx.jpg'', labels = [],
            timestamp = ''2024-05-07T12:00:09Z'', branch = ''lambda'', ttl = None\<rparr>])"
  by code_simp



section \<open>Malformed notifications\<close>

text \<open>
  C7, as amended. On a notification without the required shape, and with the table
  configured, the handler of \<^verbatim>\<open>src/lambda/lambda_handler.py\<close> returns \<^verbatim>\<open>bad_event\<close>
  and issues no call; the handler of \<^verbatim>\<open>src/lambda_handler.py\<close> issues no call either,
  and raises.
\<close>

theorem bad_event_no_calls:
  assumes "environ w ''DDB_TABLE'' = Some t" and "\<not> has_records_shape ev"
  shows "handler w ev = (Inr (ErrResult ''bad_event''), []) \<and>
         (\<exists>e. handler_root w ev = (Inl e, []))"
proof -
  from assms(2) obtain e where e: "parse_event ev = Inl e"
    using parse_event_shape [of ev] by (cases "parse_event ev") auto
  from assms(2) obtain e' where e': "parse_event_root ev = Inl e'"
    using parse_event_root_shape [of ev] by (cases "parse_event_root ev") auto
  have "handler w ev = (Inr (ErrResult ''bad_event''), [])"
    using assms(1) e by (simp add: handler_def)
  moreover have "\<exists>x. handler_root w ev = (Inl x, [])"
    using e' by (auto simp: handler_root_def split: option.splits)
  ultimately show ?thesis by blast
qed

theorem bad_event_no_calls_witness:
  "environ quiet_world ''DDB_TABLE'' = Some ''results'' \<and>
   \<not> has_records_shape (JDict [(''detail'', JStr ''ping'')]) \<and>
   handler quiet_world (JDict [(''detail'', JStr ''ping'')]) =
     (Inr (ErrResult ''bad_event''), [])"
proof -
  have e: "environ quiet_world ''DDB_TABLE'' = Some ''results''"
    by (simp add: quiet_world_def)
  have n: "\<not> has_records_shape (JDict [(''detail'', JStr ''ping'')])"
    by (simp add: has_records_shape_def member_def)
  from bad_event_no_calls [OF e n] e n show ?thesis by simp
qed

text \<open>C7 as stated fails on the handler of \<^verbatim>\<open>src/lambda_handler.py\<close>: the
  \<^verbatim>\<open>KeyError\<close> of \<^verbatim>\<open>event["Records"]\<close> leaves it.\<close>

theorem handler_root_missing_records_counterexample:
  "handler_root quiet_world (JDict [(''detail'', JStr ''ping'')]) = (Inl KeyError, [])"
  by code_simp

section \<open>The batch driver\<close>

text \<open>The loop appends to the calls issued so far; what it appends is, in outline, the
  processing of the files in order, cut where an exception ends the driver.\<close>

lemma process_files_outline:
  "\<exists>ys. snd (process_files w b t h fs cs) = cs @ ys \<and>
        prefix (outline ys) (concat (map file_outline fs)) \<and>
        (fst (process_files w b t h fs cs) = None \<longrightarrow> outline ys = concat (map file_outline fs))"
proof (induction fs arbitrary: cs)
  case Nil
  then show ?case by (simp add: outline_def)
next
  case (Cons name fs)
  let ?k = "object_key name"
  let ?c1 = "cs @ [UploadFile (image_path name) b ?k]"
  let ?c2 = "?c1 @ [DetectLabels (JStr b) (JStr ?k) 10 70]"
  show ?case
  proof (cases "upload_file w cs (image_path name) b ?k")
    case (Some e)
    then show ?thesis by (simp add: outline_def file_outline_def Let_def)
  next
    case None
    note up = None
    show ?thesis
    proof (cases "detect_labels w ?c1 (JStr b) (JStr ?k)")
      case (Inl e)
      with up show ?thesis by (simp add: outline_def file_outline_def Let_def)
    next
      case (Inr resp)
      note det = Inr
      show ?thesis
      proof (cases "labels_inline resp")
        case (Inl e)
        with up det show ?thesis by (simp add: outline_def file_outline_def Let_def)
      next
        case (Inr lbls)
        note lb = Inr
        let ?it = "\<lparr>filename = JStr ?k, labels = lbls, timestamp = iso_now w ?c2, branch = h, ttl = None\<rparr>"
        show ?thesis
        proof (cases "json_dumps ?it")
          case (Some e)
          with up det lb show ?thesis by (simp add: outline_def file_outline_def Let_def)
        next
          case None
          note js = None
          show ?thesis
          proof (cases "put_item w ?c2 t ?it")
            case (Some e)
            with up det lb js show ?thesis by (simp add: outline_def file_outline_def Let_def)
          next
            case None
            let ?c3 = "?c2 @ [PutItem t ?it]"
            obtain ys where y: "snd (process_files w b t h fs ?c3) = ?c3 @ ys \<and>
                prefix (outline ys) (concat (map file_outline fs)) \<and>
                (fst (process_files w b t h fs ?c3) = None \<longrightarrow>
                   outline ys = concat (map file_outline fs))"
              using Cons.IH [of ?c3] by (rule exE)
            note ys = conjunct1 [OF y] conjunct1 [OF conjunct2 [OF y]]
              conjunct2 [OF conjunct2 [OF y]]
            have eq: "process_files w b t h (name # fs) cs = process_files w b t h fs (?c2 @ [PutItem t ?it])"
              using up det lb js None by (simp add: Let_def)
            let ?zs = "[UploadFile (image_path name) b ?k, DetectLabels (JStr b) (JStr ?k) 10 70, PutItem t ?it] @ ys"
            have "snd (process_files w b t h (name # fs) cs) = cs @ ?zs"
              unfolding eq ys(1) by simp
            moreover have "outline ?zs = file_outline name @ outline ys"
              by (simp add: outline_def file_outline_def Let_def)
            ultimately show ?thesis using ys(2,3) unfolding eq
              by (intro exI [of _ ?zs]) simp
          qed
        qed
      qed
    qed
  qed
qed


lemma process_files_ttl:
  "PutItem t' it \<in> set (snd (process_files w b t h fs cs)) \<Longrightarrow>
     PutItem t' it \<in> set cs \<or> ttl it = None"
proof (induction fs arbitrary: cs)
  case Nil
  then show ?case by simp
next
  case (Cons name fs)
  let ?k = "object_key name"
  let ?c1 = "cs @ [UploadFile (image_path name) b ?k]"
  let ?c2 = "?c1 @ [DetectLabels (JStr b) (JStr ?k) 10 70]"
  show ?case
  proof (cases "upload_file w cs (image_path name) b ?k")
    case (Some e)
    with Cons.prems show ?thesis by (simp add: Let_def)
  next
    case None
    note up = None
    show ?thesis
    proof (cases "detect_labels w ?c1 (JStr b) (JStr ?k)")
      case (Inl e)
      with up Cons.prems show ?thesis by (simp add: Let_def)
    next
      case (Inr resp)
      note det = Inr
      show ?thesis
      proof (cases "labels_inline resp")
        case (Inl e)
        with up det Cons.prems show ?thesis by (simp add: Let_def)
      next
        case (Inr lbls)
        note lb = Inr
        let ?it = "\<lparr>filename = JStr ?k, labels = lbls, timestamp = iso_now w ?c2, branch = h, ttl = None\<rparr>"
        show ?thesis
        proof (cases "json_dumps ?it")
          case (Some e)
          with up det lb Cons.prems show ?thesis by (simp add: Let_def)
        next
          case None
          note js = None
          show ?thesis
          proof (cases "put_item w ?c2 t ?it")
            case (Some e)
            with up det lb js Cons.prems show ?thesis by (auto simp: Let_def)
          next
            case None
            have eq: "process_files w b t h (name # fs) cs = process_files w b t h fs (?c2 @ [PutItem t ?it])"
              using up det lb js None by (simp add: Let_def)
            have "PutItem t' it \<in> set (?c2 @ [PutItem t ?it]) \<or> ttl it = None"
              by (rule Cons.IH [OF Cons.prems [unfolded eq]])
            then show ?thesis by auto
          qed
        qed
      qed
    qed
  qed
qed

text \<open>The filter, read on the name: a non-empty stem, a dot, and one of the three
  extensions in any case.\<close>

lemma rfind_last:
  assumes "c \<notin> set ext"
  shows "rfind c (stem @ c # ext) = int (length stem)"
proof -
  have "dropWhile (\<lambda>x. x \<noteq> c) (rev ext @ c # rev stem)
          = dropWhile (\<lambda>x. x \<noteq> c) (c # rev stem)"
    by (rule dropWhile_append2) (use assms in auto)
  then have "dropWhile (\<lambda>x. x \<noteq> c) (rev (stem @ c # ext)) = c # rev stem"
    by simp
  then show ?thesis by (simp add: rfind_def)
qed

lemma rfind_split:
  assumes "0 \<le> rfind c s"
  shows "\<exists>stem ext. s = stem @ c # ext \<and> c \<notin> set ext \<and> rfind c s = int (length stem)"
proof -
  from assms obtain x r where d: "dropWhile (\<lambda>x. x \<noteq> c) (rev s) = x # r"
    by (auto simp: rfind_def split: list.splits)
  then have x: "x = c"
    using hd_dropWhile [of "\<lambda>x. x \<noteq> c" "rev s"] by auto
  have "rev s = takeWhile (\<lambda>x. x \<noteq> c) (rev s) @ c # r"
    using takeWhile_dropWhile_id [of "\<lambda>x. x \<noteq> c" "rev s"] d x by simp
  then have s: "s = rev r @ c # rev (takeWhile (\<lambda>x. x \<noteq> c) (rev s))"
    by (metis rev_append rev.simps(2) rev_rev_ident append.assoc append_Cons append_Nil)
  have n: "c \<notin> set (rev (takeWhile (\<lambda>x. x \<noteq> c) (rev s)))"
    by (auto dest: set_takeWhileD)
  have "rfind c s = int (length (rev r))"
    using d by (simp add: rfind_def)
  with s n show ?thesis by blast
qed

lemma lower_char_dot: "lower_char c = CHR ''.'' \<longleftrightarrow> c = CHR ''.''"
proof
  assume l: "lower_char c = CHR ''.''"
  show "c = CHR ''.''"
  proof (cases "65 \<le> (of_char c :: nat) \<and> (of_char c :: nat) \<le> 90")
    case True
    then have "lower_char c = char_of (of_char c + 32 :: nat)"
      by (simp add: lower_char_def Let_def)
    with l have "of_char (char_of (of_char c + 32 :: nat) :: char) = (of_char CHR ''.'' :: nat)"
      by simp
    with True show ?thesis by (simp add: of_char_of)
  next
    case False
    with l show ?thesis by (auto simp: lower_char_def Let_def)
  qed
next
  assume "c = CHR ''.''"
  then show "lower_char c = CHR ''.''" by (simp add: lower_char_def)
qed

lemma lower_no_dot: "CHR ''.'' \<in> set (lower s) \<longleftrightarrow> CHR ''.'' \<in> set s"
proof -
  have "CHR ''.'' \<in> set (lower s) \<longleftrightarrow> (\<exists>c \<in> set s. lower_char c = CHR ''.'')"
    by (auto simp: lower_def intro: rev_image_eqI)
  then show ?thesis by (simp add: lower_char_dot)
qed

lemma is_image_iff:
  "is_image name \<longleftrightarrow>
     (\<exists>stem ext. name = stem @ ''.'' @ ext \<and> stem \<noteq> [] \<and>
                 lower ext \<in> {''jpg'', ''jpeg'', ''png''})"
proof
  assume a: "is_image name"
  then have sfx: "suffix_of name \<noteq> []"
    by (auto simp: is_image_def lower_def)
  then have pos: "0 < rfind CHR ''.'' name" and lt: "rfind CHR ''.'' name < int (length name) - 1"
    and sf: "suffix_of name = drop (nat (rfind CHR ''.'' name)) name"
    by (auto simp: suffix_of_def Let_def split: if_splits)
  from pos obtain stem ext where
    n: "name = stem @ CHR ''.'' # ext" and r: "rfind CHR ''.'' name = int (length stem)"
    using rfind_split [of "CHR ''.''" name] by auto
  from pos r have "stem \<noteq> []" by auto
  moreover from sf r n have "suffix_of name = CHR ''.'' # ext" by simp
  then have "lower ext \<in> {''jpg'', ''jpeg'', ''png''}"
    using a by (auto simp: is_image_def lower_def lower_char_dot)
  ultimately show "\<exists>stem ext. name = stem @ ''.'' @ ext \<and> stem \<noteq> [] \<and>
                 lower ext \<in> {''jpg'', ''jpeg'', ''png''}"
    using n by auto
next
  assume "\<exists>stem ext. name = stem @ ''.'' @ ext \<and> stem \<noteq> [] \<and>
                 lower ext \<in> {''jpg'', ''jpeg'', ''png''}"
  then obtain stem ext where n: "name = stem @ CHR ''.'' # ext" and s: "stem \<noteq> []"
    and e: "lower ext \<in> {''jpg'', ''jpeg'', ''png''}" by auto
  from e have "CHR ''.'' \<notin> set (lower ext)" by auto
  then have nd: "CHR ''.'' \<notin> set ext" by (simp add: lower_no_dot)
  from e have ne: "ext \<noteq> []" by (auto simp: lower_def)
  have r: "rfind CHR ''.'' name = int (length stem)"
    unfolding n using nd by (rule rfind_last)
  have "suffix_of name = CHR ''.'' # ext"
    using r s ne n by (simp add: suffix_of_def Let_def)
  moreover have "lower_char CHR ''.'' = CHR ''.''" by (simp add: lower_char_dot)
  ultimately show "is_image name"
    using e by (auto simp: is_image_def lower_def)
qed

lemma main_configured:
  assumes "environ w ''AWS_REGION'' = Some r" and "environ w ''S3_BUCKET'' = Some b"
    and "environ w ''DYNAMODB_TABLE'' = Some t"
  shows "main w =
     (if filter is_image (glob_images w) = [] then (None, [])
      else process_files w b t
             (case environ w ''GITHUB_REF_NAME'' of None \<Rightarrow> ''unknown'' | Some h \<Rightarrow> h)
             (filter is_image (glob_images w)) [])"
  using assms by (simp add: main_def)

text \<open>
  What the loop does whatever the collaborators answer. With the three variables set, the
  calls of the batch driver are, in outline, the processing (upload, detection, write) of
  the names that pass the filter, in the order of the listing: a prefix of it when an
  exception ends the driver, all of it when the driver returns. When no name passes the
  filter the driver returns with no call issued. A name passes the filter when it is a
  non-empty stem, a dot and one of \<^verbatim>\<open>jpg\<close>, \<^verbatim>\<open>jpeg\<close>, \<^verbatim>\<open>png\<close> in any case.
\<close>

lemma main_outline:
  assumes "environ w ''AWS_REGION'' = Some r" and "environ w ''S3_BUCKET'' = Some b"
    and "environ w ''DYNAMODB_TABLE'' = Some t"
  shows "prefix (outline (snd (main w)))
           (concat (map file_outline (filter is_image (glob_images w)))) \<and>
         (fst (main w) = None \<longrightarrow>
            outline (snd (main w)) =
              concat (map file_outline (filter is_image (glob_images w)))) \<and>
         (filter is_image (glob_images w) = [] \<longrightarrow> main w = (None, [])) \<and>
         (is_image name \<longleftrightarrow>
            (\<exists>stem ext. name = stem @ ''.'' @ ext \<and> stem \<noteq> [] \<and>
                        lower ext \<in> {''jpg'', ''jpeg'', ''png''}))"
proof (cases "filter is_image (glob_images w) = []")
  case True
  with main_configured [OF assms] have "main w = (None, [])" by simp
  with True is_image_iff [of name] show ?thesis by (simp add: outline_def)
next
  case False
  let ?h = "case environ w ''GITHUB_REF_NAME'' of None \<Rightarrow> ''unknown'' | Some h \<Rightarrow> h"
  let ?fs = "filter is_image (glob_images w)"
  from False main_configured [OF assms] have m: "main w = process_files w b t ?h ?fs []"
    by simp
  obtain ys where y: "snd (process_files w b t ?h ?fs []) = [] @ ys \<and>
      prefix (outline ys) (concat (map file_outline ?fs)) \<and>
      (fst (process_files w b t ?h ?fs []) = None \<longrightarrow> outline ys = concat (map file_outline ?fs))"
    using process_files_outline [of w b t ?h ?fs "[]"] by (rule exE)
  from y have "snd (main w) = ys" by (simp add: m)
  with y m False is_image_iff [of name] show ?thesis by simp
qed

lemma main_outline_example:
  "main quiet_world = (None, []) \<and>
   fst (main photo_world) = None \<and>
   outline (snd (main photo_world)) =
     [(Upload, JStr ''rekognition-input/cat.PNG''), (Detect, JStr ''rekognition-input/cat.PNG''),
      (Write, JStr ''rekognition-input/cat.PNG''),
      (Upload, JStr ''rekognition-input/dog.jpeg''), (Detect, JStr ''rekognition-input/dog.jpeg''),
      (Write, JStr ''rekognition-input/dog.jpeg'')]"
proof -
  have q: "environ quiet_world ''AWS_REGION'' = Some ''eu-west-1''"
    "environ quiet_world ''S3_BUCKET'' = Some ''uploads''"
    "environ quiet_world ''DYNAMODB_TABLE'' = Some ''results''"
    by (simp_all add: quiet_world_def)
  have p: "environ photo_world ''AWS_REGION'' = Some ''eu-west-1''"
    "environ photo_world ''S3_BUCKET'' = Some ''uploads''"
    "environ photo_world ''DYNAMODB_TABLE'' = Some ''results''"
    by (simp_all add: photo_world_def quiet_world_def)
  have e: "filter is_image (glob_images quiet_world) = []"
    by (simp add: quiet_world_def)
  have f: "fst (main photo_world) = None"
    by code_simp
  have c: "concat (map file_outline (filter is_image (glob_images photo_world))) =
     [(Upload, JStr ''rekognition-input/cat.PNG''), (Detect, JStr ''rekognition-input/cat.PNG''),
      (Write, JStr ''rekognition-input/cat.PNG''),
      (Upload, JStr ''rekognition-input/dog.jpeg''), (Detect, JStr ''rekognition-input/dog.jpeg''),
      (Write, JStr ''rekognition-input/dog.jpeg'')]"
    by code_simp
  from main_outline [OF q] e have 1: "main quiet_world = (None, [])"
    by blast
  from main_outline [OF p] f
  have "outline (snd (main photo_world)) =
          concat (map file_outline (filter is_image (glob_images photo_world)))"
    by blast
  with c 1 f show ?thesis by simp
qed

text \<open>
  C9: the files that pass the filter are not all processed. The driver serialises the item
  for the console before it writes it, and \<^verbatim>\<open>json.dumps\<close> cannot serialise a
  \<^verbatim>\<open>Decimal\<close>. With every variable set and every call succeeding, on the first image
  for which a label is detected the driver ends with \<^verbatim>\<open>TypeError\<close>, after the upload and
  the detection and before the write; the images that follow in the listing are not
  touched.
\<close>

theorem main_stops_at_labelled_image:
  "main labelled_photo_world =
     (Some TypeError,
      [UploadFile ''images/cat.PNG'' ''uploads'' ''rekognition-input/cat.PNG'',
       DetectLabels (JStr ''uploads'') (JStr ''rekognition-input/cat.PNG'') 10 70])"
  by code_simp

section \<open>Expiry\<close>

lemma handler_ttl:
  "PutItem t it \<in> set (snd (handler w ev)) \<Longrightarrow>
     ttl it = Some (py_int (time_time w (take 1 (snd (handler w ev)))) + 604800)"
  unfolding handler_def Let_def
  by (auto split: sum.splits option.splits if_splits)

lemma handler_root_ttl:
  "PutItem t it \<in> set (snd (handler_root w ev)) \<Longrightarrow> ttl it = None"
  unfolding handler_root_def Let_def
  by (auto split: sum.splits option.splits if_splits)

lemma main_ttl: "PutItem t it \<in> set (snd (main w)) \<Longrightarrow> ttl it = None"
  unfolding main_def Let_def
  by (auto split: option.splits if_splits dest: process_files_ttl)

text \<open>
  C8, as amended. Every item the handler of \<^verbatim>\<open>src/lambda/lambda_handler.py\<close> writes has
  a \<open>ttl\<close>, an integer: the epoch seconds read from \<^verbatim>\<open>time.time()\<close> when the item is
  stamped (after the detection call, the only call issued by then), truncated, plus 604800.
  The items written by the handler of \<^verbatim>\<open>src/lambda_handler.py\<close> and by the batch driver
  have no \<open>ttl\<close>.
\<close>

theorem put_item_ttl:
  "(PutItem t it \<in> set (snd (handler w ev)) \<longrightarrow>
      ttl it = Some (py_int (time_time w (take 1 (snd (handler w ev)))) + 604800)) \<and>
   (PutItem t it \<in> set (snd (handler_root w ev)) \<longrightarrow> ttl it = None) \<and>
   (PutItem t it \<in> set (snd (main w)) \<longrightarrow> ttl it = None)"
  using handler_ttl handler_root_ttl main_ttl by blast

theorem put_item_ttl_witness:
  "PutItem ''results'' stamped_item \<in> set (snd (handler quiet_world upload_event)) \<and>
   time_time quiet_world (take 1 (snd (handler quiet_world upload_event))) = 17150832094 / 10 \<and>
   ttl stamped_item = Some (1715083209 + 604800) \<and>
   PutItem ''results'' (stamped_item\<lparr>branch := ''lambda'', ttl := None\<rparr>)
     \<in> set (snd (handler_root quiet_world upload_event)) \<and>
   PutItem ''results''
     (stamped_item\<lparr>filename := JStr ''rekognition-input/cat.PNG'', branch := ''unknown'',
                    ttl := None\<rparr>) \<in> set (snd (main photo_world)) \<and>
   ttl (stamped_item\<lparr>branch := ''lambda'', ttl := None\<rparr>) = None"
proof -
  have m: "PutItem ''results'' stamped_item \<in> set (snd (handler quiet_world upload_event))"
    by code_simp
  have r: "PutItem ''results'' (stamped_item\<lparr>branch := ''lambda'', ttl := None\<rparr>)
             \<in> set (snd (handler_root quiet_world upload_event))"
    by code_simp
  have b: "PutItem ''results''
             (stamped_item\<lparr>filename := JStr ''rekognition-input/cat.PNG'', branch := ''unknown'',
                            ttl := None\<rparr>) \<in> set (snd (main photo_world))"
    by code_simp
  have c: "time_time quiet_world (take 1 (snd (handler quiet_world upload_event)))
             = 17150832094 / 10"
    by (simp add: quiet_world_def)
  have f: "py_int (17150832094 / 10) = 1715083209"
    by code_simp
  from put_item_ttl [of "''results''" stamped_item quiet_world upload_event] m
  have k: "ttl stamped_item =
             Some (py_int (time_time quiet_world
                     (take 1 (snd (handler quiet_world upload_event)))) + 604800)"
    by blast
  from put_item_ttl [of "''results''" "stamped_item\<lparr>branch := ''lambda'', ttl := None\<rparr>"
      quiet_world upload_event] r
  have n: "ttl (stamped_item\<lparr>branch := ''lambda'', ttl := None\<rparr>) = None"
    by blast
  from m c k [unfolded c f] r b n show ?thesis by (intro conjI)
qed

text \<open>C8 as stated fails on the handler of \<^verbatim>\<open>src/lambda_handler.py\<close>, an event-triggered
  path whose item has no \<open>ttl\<close>.\<close>

theorem handler_root_item_without_ttl_counterexample:
  "snd (handler_root quiet_world upload_event) =
     [DetectLabels (JStr ''uploads'') (JStr ''a.jpg'') 10 70,
      PutItem ''results''
        \<lparr>filename = JStr ''a.jpg'', labels = [], timestamp = ''2024-05-07T12:00:09Z'',
         branch = ''lambda'', ttl = None\<rparr>]"
  by code_simp

end
